theory Spec2Isabelle
  imports
    Main
    "HOL-Library.AList"
    "HOL-Library.Char_ord"
    "HOL-Library.List_Lexorder"
    "HOL-Library.Multiset"
begin

section \<open>The diff-aware CSV export of \<^verbatim>\<open>src/backend/services/sync-service.ts\<close>\<close>

text \<open>
  The development embeds the export engine of the shift application: the CSV writer
  (\<^verbatim>\<open>csvEscape\<close>, \<^verbatim>\<open>rowsToCsv\<close>), the row fingerprints and the diff
  (\<^verbatim>\<open>makeRowHashes\<close>, \<^verbatim>\<open>calcDiff\<close>), the version index (\<^verbatim>\<open>readIndex\<close>,
  \<^verbatim>\<open>writeCsvWithDiff\<close>) and the sync run (\<^verbatim>\<open>processSubmission\<close>,
  \<^verbatim>\<open>exportEmployeesCsvDiff\<close>, \<^verbatim>\<open>runCsvSync\<close>), together with the three ledger
  calls of the data layer that the run uses (\<^verbatim>\<open>createSyncJob\<close>, \<^verbatim>\<open>addSyncJobItem\<close>,
  \<^verbatim>\<open>finishSyncJob\<close>).

  Conventions. A JavaScript string is a \<^typ>\<open>string\<close> (for text outside ASCII: its UTF-8
  bytes). A JavaScript number is an \<^typ>\<open>int\<close>: the numbers of the program are database
  identifiers, version counters, millisecond timestamps and the flags 0 and 1, all far
  inside the range where \<^verbatim>\<open>String(n)\<close> prints plain decimal digits. A JavaScript
  object with string keys is an association list in which every key occurs once; an
  assignment \<^verbatim>\<open>obj[k] = v\<close> is \<^const>\<open>AList.update\<close>, which overwrites in place or
  appends, and \<^verbatim>\<open>k in obj\<close> is \<^term>\<open>map_of obj k \<noteq> None\<close>. The keys written here
  (\<^verbatim>\<open>"<id>:<date>"\<close> and \<^verbatim>\<open>"<id>"\<close>) never name a member inherited from
  \<^verbatim>\<open>Object.prototype\<close>, so inherited members are left out of the model.
\<close>

subsection \<open>Strings and numbers of the runtime\<close>

text \<open>\<^verbatim>\<open>Array.prototype.join\<close> on an array of strings.\<close>

fun js_join :: "string \<Rightarrow> string list \<Rightarrow> string" where
  "js_join sep [] = []"
| "js_join sep [x] = x"
| "js_join sep (x # y # ys) = x @ sep @ js_join sep (y # ys)"

text \<open>Decimal digits of a natural number, most significant first.\<close>

fun digits :: "nat \<Rightarrow> string" where
  "digits n =
     (if n < 10 then [''0123456789'' ! n]
      else digits (n div 10) @ [''0123456789'' ! (n mod 10)])"

declare digits.simps [simp del]

text \<open>\<^verbatim>\<open>String(n)\<close> for an integral number.\<close>

definition String_num :: "int \<Rightarrow> string" where
  "String_num n = (if n < 0 then CHR ''-'' # digits (nat (- n)) else digits (nat n))"

text \<open>\<^verbatim>\<open>s.padStart(n, "0")\<close>.\<close>

definition padStart0 :: "nat \<Rightarrow> string \<Rightarrow> string" where
  "padStart0 n s = replicate (n - length s) CHR ''0'' @ s"

text \<open>A cell of a row: \<^verbatim>\<open>string | number\<close>.\<close>

datatype cell = Str string | Num int

type_synonym CsvRow = "(string \<times> cell) list"

type_synonym RowHashMap = "(string \<times> string) list"

text \<open>\<^verbatim>\<open>String(value)\<close> for a cell.\<close>

fun String_cell :: "cell \<Rightarrow> string" where
  "String_cell (Str s) = s"
| "String_cell (Num n) = String_num n"

text \<open>
  A value spliced into a template literal: \<^verbatim>\<open>`${row.f}`\<close>. A field the row does not
  have reads as \<^verbatim>\<open>undefined\<close> and prints as that word.
\<close>

fun template :: "cell option \<Rightarrow> string" where
  "template None = ''undefined''"
| "template (Some v) = String_cell v"

subsection \<open>The CSV text\<close>

text \<open>
  \<^verbatim>\<open>csvEscape\<close>: \<^verbatim>\<open>null\<close> and \<^verbatim>\<open>undefined\<close> print as the empty string; a text
  matching \<^verbatim>\<open>/[",\r\n]/\<close> is wrapped in double quotes with every double quote doubled.
\<close>

definition csv_special :: "char \<Rightarrow> bool" where
  "csv_special c = (c = CHR 0x22 \<or> c = CHR '','' \<or> c = CHR 0x0D \<or> c = CHR 0x0A)"

definition csvEscape :: "cell option \<Rightarrow> string" where
  "csvEscape v =
     (let raw = (case v of None \<Rightarrow> [] | Some x \<Rightarrow> String_cell x)
      in if \<not> list_ex csv_special raw then raw
         else [CHR 0x22]
              @ concat (map (\<lambda>c. if c = CHR 0x22 then [CHR 0x22, CHR 0x22] else [c]) raw)
              @ [CHR 0x22])"

text \<open>\<^verbatim>\<open>rowsToCsv\<close>: the header line, one line per row, joined and ended by a line feed.\<close>

definition rowsToCsv :: "string list \<Rightarrow> CsvRow list \<Rightarrow> string" where
  "rowsToCsv headers rows =
     (let lines = [js_join '','' headers]
                  @ map (\<lambda>row. js_join '','' (map (\<lambda>h. csvEscape (map_of row h)) headers)) rows
      in js_join [CHR 0x0A] lines @ [CHR 0x0A])"

subsection \<open>Row fingerprints and the diff\<close>

text \<open>
  \<^verbatim>\<open>JSON.stringify\<close> on a string: the text in double quotes, with the two-character
  escapes for the double quote, the backslash and the five named control characters, and
  \<^verbatim>\<open>\u00XX\<close> (lower-case hexadecimal) for every other character below 0x20.
\<close>

definition hexdigit :: "nat \<Rightarrow> char" where
  "hexdigit d = ''0123456789abcdef'' ! d"

definition json_escape_char :: "char \<Rightarrow> string" where
  "json_escape_char c =
     (if c = CHR 0x22 then [CHR 0x5C, CHR 0x22]
      else if c = CHR 0x5C then [CHR 0x5C, CHR 0x5C]
      else if c = CHR 0x08 then [CHR 0x5C, CHR ''b'']
      else if c = CHR 0x0C then [CHR 0x5C, CHR ''f'']
      else if c = CHR 0x0A then [CHR 0x5C, CHR ''n'']
      else if c = CHR 0x0D then [CHR 0x5C, CHR ''r'']
      else if c = CHR 0x09 then [CHR 0x5C, CHR ''t'']
      else if (of_char c :: nat) < 32
        then [CHR 0x5C, CHR ''u'', CHR ''0'', CHR ''0'',
              hexdigit (of_char c div 16), hexdigit (of_char c mod 16)]
      else [c])"




definition json_quote :: "string \<Rightarrow> string" where
  "json_quote s = [CHR 0x22] @ concat (map json_escape_char s) @ [CHR 0x22]"

fun json_cell :: "cell \<Rightarrow> string" where
  "json_cell (Str s) = json_quote s"
| "json_cell (Num n) = String_num n"

text \<open>
  \<^verbatim>\<open>JSON.stringify(row)\<close>: the fields in the order in which the object got them
  (the field names of the rows are not array indices, so creation order is kept).
\<close>

definition JSON_stringify :: "CsvRow \<Rightarrow> string" where
  "JSON_stringify row =
     ''{'' @ js_join '','' (map (\<lambda>(k, v). json_quote k @ '':'' @ json_cell v) row) @ ''}''"

text \<open>\<^verbatim>\<open>makeRowHashes\<close>: a later row with the same key overwrites the earlier one.\<close>

definition makeRowHashes :: "CsvRow list \<Rightarrow> (CsvRow \<Rightarrow> string) \<Rightarrow> RowHashMap" where
  "makeRowHashes rows keyFn =
     fold (\<lambda>row out. AList.update (keyFn row) (JSON_stringify row) out) rows []"

record ExportDiff =
  inserted :: nat
  updated :: nat
  deleted :: nat

text \<open>
  \<^verbatim>\<open>calcDiff\<close>: one pass over the entries of \<open>after\<close> counting the new and the changed
  keys, one pass over the keys of \<open>before\<close> counting the missing ones.
\<close>

definition count_after :: "RowHashMap \<Rightarrow> string \<times> string \<Rightarrow> nat \<times> nat \<Rightarrow> nat \<times> nat" where
  "count_after before kv acc =
     (case kv of (k, v) \<Rightarrow> case acc of (ins, upd) \<Rightarrow>
        if map_of before k = None then (ins + 1, upd)
        else if map_of before k \<noteq> Some v then (ins, upd + 1)
        else (ins, upd))"

definition count_before :: "RowHashMap \<Rightarrow> string \<Rightarrow> nat \<Rightarrow> nat" where
  "count_before after k del = (if map_of after k = None then del + 1 else del)"

definition calcDiff :: "RowHashMap \<Rightarrow> RowHashMap \<Rightarrow> ExportDiff" where
  "calcDiff before after =
     (let iu = fold (count_after before) after (0, 0);
          del = fold (count_before after) (map fst before) 0
      in \<lparr>inserted = fst iu, updated = snd iu, deleted = del\<rparr>)"

subsection \<open>The version index and the files of a dataset\<close>

record Artifact =
  fileName :: string
  filePath :: string
  version :: nat

record FileEntry = Artifact +
  createdAt :: string

text \<open>
  The \<^verbatim>\<open>files\<close> property of an index holds a reference to an array. The module creates
  one array for \<^verbatim>\<open>DEFAULT_INDEX.files\<close> when it is loaded; the copy
  \<^verbatim>\<open>{ ...DEFAULT_INDEX }\<close> is shallow and refers to that same array. Every other index
  has an array of its own, made by \<^verbatim>\<open>JSON.parse\<close> or by the literal \<^verbatim>\<open>[]\<close>.
\<close>

datatype files_ref = DefaultFiles | OwnFiles "FileEntry list"

record ExportIndex =
  latestVersion :: nat
  latestFilePath :: "string option"
  rowHashes :: RowHashMap
  files :: files_ref

definition DEFAULT_INDEX :: ExportIndex where
  "DEFAULT_INDEX =
     \<lparr>latestVersion = 0, latestFilePath = None, rowHashes = [], files = DefaultFiles\<rparr>"

text \<open>
  What \<^verbatim>\<open>JSON.parse\<close> makes of an index file: each property is there or is missing
  (\<^verbatim>\<open>null\<close> counts as missing, as \<^verbatim>\<open>??\<close> treats both alike). A file is either such a
  text (\<open>Json\<close>: what \<^verbatim>\<open>JSON.stringify(index, null, 2)\<close> wrote parses back to the
  same properties) or any other text (\<open>Raw\<close>: a CSV artifact, or an index file on which
  \<^verbatim>\<open>JSON.parse\<close> or the property reads throw).
\<close>

record ParsedIndex =
  p_latestVersion :: "nat option"
  p_latestFilePath :: "string option"
  p_rowHashes :: "RowHashMap option"
  p_files :: "FileEntry list option"

datatype stored_file = Raw string | Json ParsedIndex

subsection \<open>The ledger of sync jobs\<close>

text \<open>
  The rows of \<^verbatim>\<open>sync_jobs\<close> and \<^verbatim>\<open>sync_job_items\<close> and the records the data
  layer makes of them. The columns \<^verbatim>\<open>started_at\<close>, \<^verbatim>\<open>created_at\<close> and
  \<^verbatim>\<open>updated_at\<close>, which the run only passes through, are left out.
\<close>

datatype trigger_type = Auto | Manual | Retry

datatype job_status = Queued | Running | Success | Failed

datatype item_status = ItemSuccess | ItemFailed

record SyncJob =
  job_id :: nat
  triggeredByUserId :: int
  triggerType :: trigger_type
  status :: job_status
  spreadsheetId :: string
  sheetName :: string
  finishedAt :: "string option"
  errorMessage :: "string option"

record SyncJobItem =
  syncJobId :: nat
  shiftSubmissionId :: int
  item_status :: item_status
  item_errorMessage :: "string option"

record Employee =
  emp_id :: int
  employeeCode :: string
  displayName :: string
  department :: "string option"
  isActive :: bool

subsection \<open>The state of the process and its stores\<close>

text \<open>
  \<open>defaultFiles\<close> is the content of the array behind \<^verbatim>\<open>DEFAULT_INDEX.files\<close>,
  \<open>fs\<close> the files by path, \<open>jobs\<close> and \<open>items\<close> the tables \<^verbatim>\<open>sync_jobs\<close> and
  \<^verbatim>\<open>sync_job_items\<close>, \<open>nextJobId\<close> the next value of the \<^verbatim>\<open>BIGSERIAL\<close> of
  \<^verbatim>\<open>sync_jobs\<close>, \<open>employees\<close> the rows \<^verbatim>\<open>listEmployees\<close> returns, \<open>cwd\<close> the
  working directory. Writes to the stores succeed: a failing disk or database is outside
  the model.
\<close>

record World =
  defaultFiles :: "FileEntry list"
  fs :: "string \<Rightarrow> stored_file option"
  jobs :: "SyncJob list"
  items :: "SyncJobItem list"
  nextJobId :: nat
  employees :: "Employee list"
  cwd :: string

text \<open>The array a \<^verbatim>\<open>files\<close> reference points to.\<close>

fun the_files :: "World \<Rightarrow> files_ref \<Rightarrow> FileEntry list" where
  "the_files w DefaultFiles = defaultFiles w"
| "the_files w (OwnFiles xs) = xs"

text \<open>\<^verbatim>\<open>index.files.push(entry)\<close>: the array is changed in place.\<close>

fun push_file :: "FileEntry \<Rightarrow> files_ref \<Rightarrow> World \<Rightarrow> files_ref \<times> World" where
  "push_file e DefaultFiles w = (DefaultFiles, w\<lparr>defaultFiles := defaultFiles w @ [e]\<rparr>)"
| "push_file e (OwnFiles xs) w = (OwnFiles (xs @ [e]), w)"

text \<open>\<^verbatim>\<open>path.join\<close> of a directory and a plain name.\<close>

definition path_join :: "string \<Rightarrow> string \<Rightarrow> string" where
  "path_join dir name = dir @ ''/'' @ name"

text \<open>
  \<^verbatim>\<open>readIndex\<close>: a missing file and a text that does not parse both end in the
  \<^verbatim>\<open>catch\<close> branch and give the shallow copy of \<^verbatim>\<open>DEFAULT_INDEX\<close>.
\<close>

definition readIndex :: "World \<Rightarrow> string \<Rightarrow> ExportIndex" where
  "readIndex w indexPath =
     (case fs w indexPath of
        Some (Json parsed) \<Rightarrow>
          \<lparr>latestVersion = (case p_latestVersion parsed of None \<Rightarrow> 0 | Some v \<Rightarrow> v),
           latestFilePath = p_latestFilePath parsed,
           rowHashes = (case p_rowHashes parsed of None \<Rightarrow> [] | Some h \<Rightarrow> h),
           files = OwnFiles (case p_files parsed of None \<Rightarrow> [] | Some xs \<Rightarrow> xs)\<rparr>
      | Some (Raw _) \<Rightarrow> DEFAULT_INDEX
      | None \<Rightarrow> DEFAULT_INDEX)"

record WriteOptions =
  baseDir :: string
  filePrefix :: string
  headers :: "string list"
  rows :: "CsvRow list"
  keyFn :: "CsvRow \<Rightarrow> string"

record ExportResult =
  changed :: bool
  diff :: ExportDiff
  artifact :: "Artifact option"

text \<open>\<^verbatim>\<open>!index.latestFilePath\<close>: \<^verbatim>\<open>null\<close> and the empty string are falsy.\<close>

fun no_latest_file :: "string option \<Rightarrow> bool" where
  "no_latest_file None = True"
| "no_latest_file (Some p) = (p = [])"

text \<open>\<^verbatim>\<open>index.files[index.files.length - 1] ?? null\<close>, reduced to the three properties returned.\<close>

definition latest_artifact :: "FileEntry list \<Rightarrow> Artifact option" where
  "latest_artifact xs =
     (if xs = [] then None
      else Some \<lparr>fileName = fileName (last xs), filePath = filePath (last xs),
                 version = version (last xs)\<rparr>)"

text \<open>The name of an artifact: \<^verbatim>\<open>`${prefix}_v${String(version).padStart(4, "0")}_${ts}.csv`\<close>.\<close>

definition artifactName :: "string \<Rightarrow> nat \<Rightarrow> nat \<Rightarrow> string" where
  "artifactName prefix v ts =
     prefix @ ''_v'' @ padStart0 4 (String_num (int v)) @ ''_'' @ String_num (int ts) @ ''.csv''"

text \<open>
  \<^verbatim>\<open>writeCsvWithDiff\<close>. \<open>ts\<close> is what \<^verbatim>\<open>Date.now()\<close> returns in this call and
  \<open>created\<close> what \<^verbatim>\<open>new Date().toISOString()\<close> returns. \<^verbatim>\<open>fs.mkdir\<close> creates no file.
\<close>

definition writeCsvWithDiff ::
    "WriteOptions \<Rightarrow> nat \<Rightarrow> string \<Rightarrow> World \<Rightarrow> ExportResult \<times> World" where
  "writeCsvWithDiff options ts created w =
     (let indexPath = path_join (baseDir options) ''index.json'';
          index = readIndex w indexPath;
          hashes = makeRowHashes (rows options) (keyFn options);
          d = calcDiff (rowHashes index) hashes;
          ch = (inserted d + updated d + deleted d > 0 \<or> no_latest_file (latestFilePath index))
      in if \<not> ch then
           (\<lparr>changed = False, diff = d, artifact = latest_artifact (the_files w (files index))\<rparr>, w)
         else
           let v = latestVersion index + 1;
               name = artifactName (filePrefix options) v ts;
               path = path_join (baseDir options) name;
               w1 = w\<lparr>fs := (fs w)(path \<mapsto> Raw (rowsToCsv (headers options) (rows options)))\<rparr>;
               pushed = push_file \<lparr>fileName = name, filePath = path, version = v, createdAt = created\<rparr>
                          (files index) w1;
               w2 = snd pushed;
               stored = \<lparr>p_latestVersion = Some v, p_latestFilePath = Some path,
                         p_rowHashes = Some hashes,
                         p_files = Some (the_files w2 (fst pushed))\<rparr>;
               w3 = w2\<lparr>fs := (fs w2)(indexPath \<mapsto> Json stored)\<rparr>
           in (\<lparr>changed = True, diff = d,
                artifact = Some \<lparr>fileName = name, filePath = path, version = v\<rparr>\<rparr>, w3))"

subsection \<open>Row projection\<close>

datatype availability = Available | Unavailable | Negotiable

fun availability_text :: "availability \<Rightarrow> string" where
  "availability_text Available = ''available''"
| "availability_text Unavailable = ''unavailable''"
| "availability_text Negotiable = ''negotiable''"

text \<open>A submission with the properties the export reads.\<close>

record Detail =
  targetDate :: string
  availability :: availability
  memo :: "string option"

record ShiftSubmission =
  sub_id :: int
  yearMonth :: string
  employeeId :: int
  details :: "Detail list"

definition buildSubmissionRows :: "ShiftSubmission \<Rightarrow> string \<Rightarrow> CsvRow list" where
  "buildSubmissionRows submission employeeName =
     map (\<lambda>d. [(''submission_id'', Num (sub_id submission)),
               (''year_month'', Str (yearMonth submission)),
               (''employee_id'', Num (employeeId submission)),
               (''employee_name'', Str employeeName),
               (''target_date'', Str (targetDate d)),
               (''availability'', Str (availability_text (availability d))),
               (''time_range'', Str (case memo d of None \<Rightarrow> [] | Some m \<Rightarrow> m))])
         (details submission)"

text \<open>
  \<^verbatim>\<open>new Map(employees.map((e) => [e.id, e.displayName]))\<close>: of two entries with one key
  the later one stays.
\<close>

definition employeeNameById :: "Employee list \<Rightarrow> int \<Rightarrow> string option" where
  "employeeNameById es = map_of (rev (map (\<lambda>e. (emp_id e, displayName e)) es))"

text \<open>What a rejected promise carries: an \<^verbatim>\<open>Error\<close> with its message, or another value.\<close>

datatype thrown = Error string | NotAnError

definition processSubmission ::
    "ShiftSubmission \<Rightarrow> (int \<Rightarrow> string option) \<Rightarrow> thrown + CsvRow list" where
  "processSubmission submission names =
     (if details submission = [] then Inl (Error ''details is empty'')
      else Inr (buildSubmissionRows submission
                  (case names (employeeId submission) of
                     None \<Rightarrow> ''employee-'' @ String_num (employeeId submission)
                   | Some n \<Rightarrow> n)))"

text \<open>
  \<^verbatim>\<open>Promise.allSettled\<close>. The promises settle one at a time, in the order
  \<open>completion\<close> (a list of positions in the array); the result of the promise at position
  \<open>i\<close> goes to slot \<open>i\<close>. The combined promise resolves when every slot is filled; when
  a slot stays empty the \<^verbatim>\<open>await\<close> never resumes, which is \<open>None\<close>.
\<close>

definition allSettled :: "nat list \<Rightarrow> 'a list \<Rightarrow> 'a list option" where
  "allSettled completion ps =
     those (fold (\<lambda>i slots. if i < length ps then slots[i := Some (ps ! i)] else slots)
              completion (replicate (length ps) None))"

text \<open>The natural key of a submission row, \<^verbatim>\<open>`${row.submission_id}:${row.target_date}`\<close>.\<close>

definition submissionKey :: "CsvRow \<Rightarrow> string" where
  "submissionKey row =
     template (map_of row ''submission_id'') @ '':'' @ template (map_of row ''target_date'')"

text \<open>The natural key of an employee row, \<^verbatim>\<open>String(row.employee_id)\<close>.\<close>

definition employeeKey :: "CsvRow \<Rightarrow> string" where
  "employeeKey row = template (map_of row ''employee_id'')"

subsection \<open>The ledger calls of the data layer\<close>

text \<open>
  \<^verbatim>\<open>createSyncJob\<close>: one \<^verbatim>\<open>INSERT\<close> into \<^verbatim>\<open>sync_jobs\<close>; the row gets the next
  identifier of the sequence and is returned.
\<close>

definition createSyncJob ::
    "int \<Rightarrow> trigger_type \<Rightarrow> string \<Rightarrow> string \<Rightarrow> job_status \<Rightarrow> World \<Rightarrow> SyncJob \<times> World" where
  "createSyncJob uid trig sheet name st w =
     (let j = \<lparr>job_id = nextJobId w, triggeredByUserId = uid, triggerType = trig, status = st,
               spreadsheetId = sheet, sheetName = name, finishedAt = None, errorMessage = None\<rparr>
      in (j, w\<lparr>jobs := jobs w @ [j], nextJobId := nextJobId w + 1\<rparr>))"

text \<open>
  \<^verbatim>\<open>addSyncJobItem\<close>: \<^verbatim>\<open>INSERT ... ON CONFLICT (sync_job_id, shift_submission_id) DO
  UPDATE\<close>: a row with the same job and submission is overwritten, not added again.
\<close>

definition same_item :: "SyncJobItem \<Rightarrow> SyncJobItem \<Rightarrow> bool" where
  "same_item a b = (syncJobId a = syncJobId b \<and> shiftSubmissionId a = shiftSubmissionId b)"

definition addSyncJobItem :: "SyncJobItem \<Rightarrow> World \<Rightarrow> World" where
  "addSyncJobItem it w =
     (if list_ex (same_item it) (items w)
      then w\<lparr>items := map (\<lambda>x. if same_item it x
                                then x\<lparr>item_status := item_status it,
                                       item_errorMessage := item_errorMessage it\<rparr>
                                else x) (items w)\<rparr>
      else w\<lparr>items := items w @ [it]\<rparr>)"

text \<open>\<^verbatim>\<open>finishSyncJob\<close>: one \<^verbatim>\<open>UPDATE\<close> of the row with the identifier.\<close>

definition finishSyncJob :: "nat \<Rightarrow> job_status \<Rightarrow> string option \<Rightarrow> string \<Rightarrow> World \<Rightarrow> World" where
  "finishSyncJob i st err now w =
     w\<lparr>jobs := map (\<lambda>j. if job_id j = i
                         then j\<lparr>status := st, errorMessage := err, finishedAt := Some now\<rparr>
                         else j) (jobs w)\<rparr>"

subsection \<open>The two exports and the sync run\<close>

text \<open>\<^verbatim>\<open>Number(row.employee_id)\<close>; the property is a number in every row built below.\<close>

fun Number_of :: "cell option \<Rightarrow> int" where
  "Number_of (Some (Num n)) = n"
| "Number_of _ = 0"

definition employeeRow :: "Employee \<Rightarrow> CsvRow" where
  "employeeRow e =
     [(''employee_id'', Num (emp_id e)),
      (''employee_code'', Str (employeeCode e)),
      (''display_name'', Str (displayName e)),
      (''department'', Str (case department e of None \<Rightarrow> [] | Some d \<Rightarrow> d)),
      (''is_active'', Num (if isActive e then 1 else 0))]"

text \<open>\<^verbatim>\<open>path.resolve(process.cwd(), "storage", "csv", name)\<close> for a plain name.\<close>

definition datasetDir :: "string \<Rightarrow> string \<Rightarrow> string" where
  "datasetDir dir name = path_join (path_join (path_join dir ''storage'') ''csv'') name"

text \<open>
  The options \<^verbatim>\<open>exportEmployeesCsvDiff\<close> passes to the writer.
  \<^verbatim>\<open>Array.prototype.sort\<close> is stable, as the insertion sort \<^const>\<open>sort_key\<close> is.
\<close>

definition employeesOptions :: "World \<Rightarrow> WriteOptions" where
  "employeesOptions w =
     \<lparr>baseDir = datasetDir (cwd w) ''employees'',
      filePrefix = ''employees'',
      headers = [''employee_id'', ''employee_code'', ''display_name'', ''department'',
                 ''is_active''],
      rows = sort_key (\<lambda>row. Number_of (map_of row ''employee_id''))
               (map employeeRow (employees w)),
      keyFn = employeeKey\<rparr>"

definition exportEmployeesCsvDiff :: "nat \<Rightarrow> string \<Rightarrow> World \<Rightarrow> ExportResult \<times> World" where
  "exportEmployeesCsvDiff ts created w = writeCsvWithDiff (employeesOptions w) ts created w"

text \<open>The options \<^verbatim>\<open>runCsvSync\<close> passes to the writer for the rows of a month.\<close>

definition submissionsOptions :: "string \<Rightarrow> string \<Rightarrow> CsvRow list \<Rightarrow> WriteOptions" where
  "submissionsOptions dir ym csvRows =
     \<lparr>baseDir = datasetDir dir ym,
      filePrefix = remove1 CHR ''-'' ym @ ''_submissions'',
      headers = [''submission_id'', ''year_month'', ''employee_id'', ''employee_name'',
                 ''target_date'', ''availability'', ''time_range''],
      rows = csvRows,
      keyFn = submissionKey\<rparr>"

record CsvSyncOptions =
  o_yearMonth :: string
  o_triggerType :: trigger_type
  o_triggeredByUserId :: int
  submissions :: "ShiftSubmission list"

text \<open>The readings of the clock during one run, in the order in which the run takes them.\<close>

record Clock =
  submissionsNow :: nat
  submissionsCreated :: string
  employeesNow :: nat
  employeesCreated :: string
  databaseNow :: string
  returnedAt :: string

record RunSummary =
  total :: nat
  success :: nat
  failed :: nat
  submissionDiff :: ExportDiff
  employeeDiff :: ExportDiff

record RunArtifact =
  a_yearMonth :: string
  submissionsCsv :: "Artifact option"
  employeesCsv :: "Artifact option"
  a_changed :: bool

record RunResult =
  job :: SyncJob
  summary :: RunSummary
  run_artifact :: RunArtifact

text \<open>How a call ends: it throws, it returns, or its \<^verbatim>\<open>await\<close> never resumes.\<close>

datatype 'a outcome = Raised string | Returned 'a | NeverSettles

text \<open>The body of the loop over \<^verbatim>\<open>settled\<close>: one ledger item per position.\<close>

definition record_settled ::
    "nat \<Rightarrow> (thrown + CsvRow list) \<times> ShiftSubmission \<Rightarrow> CsvRow list \<times> nat \<times> World
       \<Rightarrow> CsvRow list \<times> nat \<times> World" where
  "record_settled jid rs acc =
     (case rs of (result, submission) \<Rightarrow> case acc of (csvRows, failedCount, w) \<Rightarrow>
        (case result of
           Inr produced \<Rightarrow>
             (csvRows @ produced, failedCount,
              addSyncJobItem \<lparr>syncJobId = jid, shiftSubmissionId = sub_id submission,
                              item_status = ItemSuccess, item_errorMessage = None\<rparr> w)
         | Inl reason \<Rightarrow>
             (csvRows, failedCount + 1,
              addSyncJobItem \<lparr>syncJobId = jid, shiftSubmissionId = sub_id submission,
                              item_status = ItemFailed,
                              item_errorMessage =
                                Some (case reason of Error m \<Rightarrow> m
                                      | NotAnError \<Rightarrow> ''csv export failed'')\<rparr> w)))"

text \<open>
  \<^verbatim>\<open>runCsvSync\<close>. \<^verbatim>\<open>localeCompare\<close> orders strings by the collation of the runtime's
  locale; the model takes that collation as the parameter \<open>collate\<close>, which sends a string
  to its sort key in a linear order (the identity, when the collation compares strings
  character by character). \<open>completion\<close> is the order in which the projections settle.
\<close>

definition runCsvSync ::
    "(string \<Rightarrow> 'k::linorder) \<Rightarrow> nat list \<Rightarrow> Clock \<Rightarrow> CsvSyncOptions \<Rightarrow> World
       \<Rightarrow> RunResult outcome \<times> World" where
  "runCsvSync collate completion clock options w =
     (if submissions options = [] then (Raised ''no submissions for target month'', w)
      else
        let created = createSyncJob (o_triggeredByUserId options) (o_triggerType options)
                        ''csv-export'' (''csv_'' @ o_yearMonth options) Running w;
            j = fst created;
            w1 = snd created;
            names = employeeNameById (employees w1)
        in case allSettled completion
                  (map (\<lambda>s. processSubmission s names) (submissions options)) of
             None \<Rightarrow> (NeverSettles, w1)
           | Some settled \<Rightarrow>
               let looped = fold (record_settled (job_id j))
                              (zip settled (submissions options)) ([], 0, w1);
                   csvRows = sort_key (\<lambda>row. collate (submissionKey row)) (fst looped);
                   failedCount = fst (snd looped);
                   w2 = snd (snd looped);
                   submissionsExport =
                     writeCsvWithDiff (submissionsOptions (cwd w2) (o_yearMonth options) csvRows)
                       (submissionsNow clock) (submissionsCreated clock) w2;
                   w3 = snd submissionsExport;
                   employeesExport =
                     exportEmployeesCsvDiff (employeesNow clock) (employeesCreated clock) w3;
                   w4 = snd employeesExport;
                   st = (if failedCount > 0 then Failed else Success);
                   err = (if failedCount > 0
                          then Some ''some rows failed during parallel csv export'' else None);
                   w5 = finishSyncJob (job_id j) st err (databaseNow clock) w4
               in (Returned
                     \<lparr>job = j\<lparr>status := st, finishedAt := Some (returnedAt clock),
                               errorMessage := err\<rparr>,
                      summary =
                        \<lparr>total = length (submissions options),
                         success = length (submissions options) - failedCount,
                         failed = failedCount,
                         submissionDiff = diff (fst submissionsExport),
                         employeeDiff = diff (fst employeesExport)\<rparr>,
                      run_artifact =
                        \<lparr>a_yearMonth = o_yearMonth options,
                         submissionsCsv = artifact (fst submissionsExport),
                         employeesCsv = artifact (fst employeesExport),
                         a_changed = (changed (fst submissionsExport)
                                      \<or> changed (fst employeesExport))\<rparr>\<rparr>,
                   w5))"

subsection \<open>What a run records and exports, read off its input\<close>




section \<open>The CSV text\<close>

lemma js_join_terminated:
  "ls \<noteq> [] \<Longrightarrow> js_join sep ls @ sep = concat (map (\<lambda>l. l @ sep) ls)"
  by (induction sep ls rule: js_join.induct) simp_all

lemma rowsToCsv_lines:
  "rowsToCsv hs rs =
     js_join '','' hs @ [CHR 0x0A]
     @ concat (map (\<lambda>row. js_join '','' (map (\<lambda>h. csvEscape (map_of row h)) hs) @ [CHR 0x0A]) rs)"
  unfolding rowsToCsv_def Let_def
  by (simp add: js_join_terminated [where sep = "[CHR 0x0A]", simplified] comp_def)

lemma list_ex_csv_special:
  "list_ex csv_special s \<longleftrightarrow> set s \<inter> {CHR 0x22, CHR '','', CHR 0x0D, CHR 0x0A} \<noteq> {}"
  by (auto simp: list_ex_iff csv_special_def)

text \<open>
  Claim C6. The text of an artifact is the header line (the column names joined by commas)
  followed by one line per row, each line ended by a line feed, so the text ends with a
  line feed; a row's line holds the row's value for every column, in the order of the
  columns. A missing value prints as the empty string; a value without comma, double
  quote, carriage return or line feed prints as it is; any other value is put in double
  quotes with each double quote inside doubled, as for the memo \<^verbatim>\<open>Mon, "AM" only\<close>.
\<close>

theorem csv_format:
  "rowsToCsv hs rs =
     js_join '','' hs @ [CHR 0x0A]
     @ concat (map (\<lambda>row. js_join '','' (map (\<lambda>h. csvEscape (map_of row h)) hs) @ [CHR 0x0A]) rs)
   \<and> last (rowsToCsv hs rs) = CHR 0x0A
   \<and> csvEscape None = []
   \<and> (set (String_cell v) \<inter> {CHR 0x22, CHR '','', CHR 0x0D, CHR 0x0A} = {}
        \<longrightarrow> csvEscape (Some v) = String_cell v)
   \<and> (set (String_cell v) \<inter> {CHR 0x22, CHR '','', CHR 0x0D, CHR 0x0A} \<noteq> {}
        \<longrightarrow> csvEscape (Some v) =
              [CHR 0x22]
              @ concat (map (\<lambda>c. if c = CHR 0x22 then [CHR 0x22, CHR 0x22] else [c])
                          (String_cell v))
              @ [CHR 0x22])
   \<and> csvEscape (Some (Str (''Mon, '' @ [CHR 0x22] @ ''AM'' @ [CHR 0x22] @ '' only'')))
       = [CHR 0x22] @ ''Mon, '' @ [CHR 0x22, CHR 0x22] @ ''AM'' @ [CHR 0x22, CHR 0x22]
         @ '' only'' @ [CHR 0x22]"
proof (intro conjI)
  show "last (rowsToCsv hs rs) = CHR 0x0A"
    by (simp add: rowsToCsv_def Let_def)
  show "csvEscape None = []"
    by (simp add: csvEscape_def)
  show "csvEscape (Some (Str (''Mon, '' @ [CHR 0x22] @ ''AM'' @ [CHR 0x22] @ '' only'')))
       = [CHR 0x22] @ ''Mon, '' @ [CHR 0x22, CHR 0x22] @ ''AM'' @ [CHR 0x22, CHR 0x22]
         @ '' only'' @ [CHR 0x22]"
    by (simp add: csvEscape_def csv_special_def)
qed (simp_all add: rowsToCsv_lines csvEscape_def list_ex_csv_special)

theorem csv_format_witness:
  "set (String_cell (Str ''x,y'')) \<inter> {CHR 0x22, CHR '','', CHR 0x0D, CHR 0x0A} \<noteq> {}
   \<and> csvEscape (Some (Str ''x,y'')) = [CHR 0x22] @ ''x,y'' @ [CHR 0x22]
   \<and> set (String_cell (Num 12)) \<inter> {CHR 0x22, CHR '','', CHR 0x0D, CHR 0x0A} = {}
   \<and> csvEscape (Some (Num 12)) = ''12''
   \<and> rowsToCsv [''a'', ''b''] [[(''a'', Num 12), (''b'', Str ''x,y'')], [(''b'', Str ''q'')]]
       = ''a,b'' @ [CHR 0x0A] @ ''12,'' @ [CHR 0x22] @ ''x,y'' @ [CHR 0x22, CHR 0x0A]
         @ '',q'' @ [CHR 0x0A]"
  using csv_format [of "[''a'', ''b'']"
      "[[(''a'', Num 12), (''b'', Str ''x,y'')], [(''b'', Str ''q'')]]" "Str ''x,y''"]
    csv_format [of "[]" "[]" "Num 12"]
  by (simp add: csvEscape_def csv_special_def String_num_def digits.simps)

section \<open>Row fingerprints and the diff\<close>

subsection \<open>The escape of \<^verbatim>\<open>JSON.stringify\<close> can be read back\<close>













subsection \<open>What \<^verbatim>\<open>calcDiff\<close> counts\<close>

lemma fold_count_after:
  "fold (count_after before) after (i, u) =
     (i + length (filter (\<lambda>kv. map_of before (fst kv) = None) after),
      u + length (filter (\<lambda>kv. map_of before (fst kv) \<noteq> None
                               \<and> map_of before (fst kv) \<noteq> Some (snd kv)) after))"
  by (induction after arbitrary: i u) (auto simp: count_after_def)

lemma fold_count_before:
  "fold (count_before after) ks d = d + length (filter (\<lambda>k. map_of after k = None) ks)"
  by (induction ks arbitrary: d) (auto simp: count_before_def)

lemma length_filter_alist:
  assumes "distinct (map fst al)"
  shows "length (filter (\<lambda>kv. Q (fst kv) (snd kv)) al)
           = card {k. \<exists>v. map_of al k = Some v \<and> Q k v}"
  using assms
proof (induction al)
  case Nil
  then show ?case by simp
next
  case (Cons a al)
  obtain k v where a: "a = (k, v)" by (cases a)
  let ?S = "{k'. \<exists>v'. map_of al k' = Some v' \<and> Q k' v'}"
  from Cons.prems a have fresh: "map_of al k = None"
    by (simp add: map_of_eq_None_iff)
  have fin: "finite ?S"
    by (rule finite_subset [of _ "dom (map_of al)"]) (auto simp: finite_dom_map_of)
  have notin: "k \<notin> ?S"
    using fresh by simp
  have eq: "{k'. \<exists>v'. map_of (a # al) k' = Some v' \<and> Q k' v'}
              = (if Q k v then insert k ?S else ?S)"
    using fresh by (auto simp: a)
  from Cons have "length (filter (\<lambda>kv. Q (fst kv) (snd kv)) al) = card ?S"
    by simp
  with eq fin notin show ?case
    by (simp add: a)
qed

lemma length_filter_keys:
  assumes "distinct ks"
  shows "length (filter P ks) = card {k \<in> set ks. P k}"
proof -
  have "distinct (filter P ks)" using assms by simp
  then have "length (filter P ks) = card (set (filter P ks))"
    by (rule distinct_card [symmetric])
  also have "set (filter P ks) = {k \<in> set ks. P k}" by auto
  finally show ?thesis .
qed

lemma distinct_makeRowHashes: "distinct (map fst (makeRowHashes rs kf))"
proof -
  have "distinct (map fst acc) \<Longrightarrow>
        distinct (map fst (fold (\<lambda>row out. AList.update (kf row) (JSON_stringify row) out) rs acc))"
    for acc
    by (induction rs arbitrary: acc) (simp_all add: distinct_update)
  from this [of "[]"] show ?thesis
    by (simp add: makeRowHashes_def)
qed


lemma calcDiff_counts:
  assumes "distinct (map fst before)" and "distinct (map fst after)"
  shows "inserted (calcDiff before after)
           = card {k \<in> dom (map_of after). k \<notin> dom (map_of before)}"
    and "updated (calcDiff before after)
           = card {k \<in> dom (map_of after). k \<in> dom (map_of before) \<and> map_of after k \<noteq> map_of before k}"
    and "deleted (calcDiff before after)
           = card {k \<in> dom (map_of before). k \<notin> dom (map_of after)}"
proof -
  have "inserted (calcDiff before after)
          = length (filter (\<lambda>kv. map_of before (fst kv) = None) after)"
    by (simp add: calcDiff_def Let_def fold_count_after)
  also have "\<dots> = card {k. \<exists>v. map_of after k = Some v \<and> map_of before k = None}"
    using length_filter_alist [OF assms(2), of "\<lambda>k v. map_of before k = None"] by simp
  also have "{k. \<exists>v. map_of after k = Some v \<and> map_of before k = None}
               = {k \<in> dom (map_of after). k \<notin> dom (map_of before)}"
    by (auto simp: dom_def)
  finally show "inserted (calcDiff before after)
           = card {k \<in> dom (map_of after). k \<notin> dom (map_of before)}" .
  have "updated (calcDiff before after)
          = length (filter (\<lambda>kv. map_of before (fst kv) \<noteq> None
                               \<and> map_of before (fst kv) \<noteq> Some (snd kv)) after)"
    by (simp add: calcDiff_def Let_def fold_count_after)
  also have "\<dots> = card {k. \<exists>v. map_of after k = Some v \<and> map_of before k \<noteq> None
                               \<and> map_of before k \<noteq> Some v}"
    using length_filter_alist [OF assms(2),
        of "\<lambda>k v. map_of before k \<noteq> None \<and> map_of before k \<noteq> Some v"] by simp
  also have "{k. \<exists>v. map_of after k = Some v \<and> map_of before k \<noteq> None
                               \<and> map_of before k \<noteq> Some v}
               = {k \<in> dom (map_of after). k \<in> dom (map_of before) \<and> map_of after k \<noteq> map_of before k}"
    by (auto simp: dom_def)
  finally show "updated (calcDiff before after)
           = card {k \<in> dom (map_of after). k \<in> dom (map_of before) \<and> map_of after k \<noteq> map_of before k}" .
  have "deleted (calcDiff before after)
          = length (filter (\<lambda>k. map_of after k = None) (map fst before))"
    by (simp add: calcDiff_def Let_def fold_count_before)
  also have "\<dots> = card {k \<in> set (map fst before). map_of after k = None}"
    by (rule length_filter_keys [OF assms(1)])
  also have "{k \<in> set (map fst before). map_of after k = None}
               = {k \<in> dom (map_of before). k \<notin> dom (map_of after)}"
    by (auto simp: dom_map_of_conv_image_fst map_of_eq_None_iff)
  finally show "deleted (calcDiff before after)
           = card {k \<in> dom (map_of before). k \<notin> dom (map_of after)}" .
qed











section \<open>The artifact writer\<close>

lemma the_files_fs_update [simp]: "the_files (w\<lparr>fs := f\<rparr>) r = the_files w r"
  by (cases r) simp_all

lemma writeCsvWithDiff_unchanged:
  fixes opts :: WriteOptions and w :: World
  defines "idx \<equiv> readIndex w (path_join (baseDir opts) ''index.json'')"
  defines "d \<equiv> calcDiff (rowHashes idx) (makeRowHashes (rows opts) (keyFn opts))"
  assumes "inserted d + updated d + deleted d = 0"
    and "\<not> no_latest_file (latestFilePath idx)"
  shows "writeCsvWithDiff opts ts c w =
           (\<lparr>changed = False, diff = d,
             artifact = latest_artifact (the_files w (files idx))\<rparr>, w)"
  using assms(3,4) unfolding writeCsvWithDiff_def idx_def d_def
  by (simp add: Let_def)

lemma writeCsvWithDiff_changed:
  fixes opts :: WriteOptions and w :: World and ts :: nat and c :: string
  defines "ip \<equiv> path_join (baseDir opts) ''index.json''"
  defines "idx \<equiv> readIndex w ip"
  defines "h \<equiv> makeRowHashes (rows opts) (keyFn opts)"
  defines "d \<equiv> calcDiff (rowHashes idx) h"
  defines "v \<equiv> latestVersion idx + 1"
  defines "name \<equiv> artifactName (filePrefix opts) v ts"
  defines "path \<equiv> path_join (baseDir opts) name"
  defines "entry \<equiv> \<lparr>fileName = name, filePath = path, version = v, createdAt = c\<rparr>"
  assumes "inserted d + updated d + deleted d > 0 \<or> no_latest_file (latestFilePath idx)"
  shows "writeCsvWithDiff opts ts c w =
     (\<lparr>changed = True, diff = d,
       artifact = Some \<lparr>fileName = name, filePath = path, version = v\<rparr>\<rparr>,
      w\<lparr>fs := (fs w)(path \<mapsto> Raw (rowsToCsv (headers opts) (rows opts)),
                      ip \<mapsto> Json \<lparr>p_latestVersion = Some v, p_latestFilePath = Some path,
                                  p_rowHashes = Some h,
                                  p_files = Some (the_files w (files idx) @ [entry])\<rparr>),
        defaultFiles := (if files idx = DefaultFiles then defaultFiles w @ [entry]
                         else defaultFiles w)\<rparr>)"
proof (cases "files idx")
  case DefaultFiles
  with assms(9) show ?thesis
    unfolding writeCsvWithDiff_def entry_def path_def name_def v_def d_def h_def idx_def ip_def
    by (simp add: Let_def)
next
  case (OwnFiles xs)
  with assms(9) show ?thesis
    unfolding writeCsvWithDiff_def entry_def path_def name_def v_def d_def h_def idx_def ip_def
    by (simp add: Let_def)
qed



lemma calcDiff_same:
  assumes "distinct (map fst h)"
  shows "calcDiff h h = \<lparr>inserted = 0, updated = 0, deleted = 0\<rparr>"
proof -
  have "inserted (calcDiff h h) = 0" "updated (calcDiff h h) = 0" "deleted (calcDiff h h) = 0"
    using calcDiff_counts [OF assms assms] by simp_all
  then show ?thesis
    by (simp add: calcDiff_def Let_def)
qed

lemma path_join_nonempty: "path_join dir name \<noteq> []"
  by (simp add: path_join_def)

lemma readIndex_after_write:
  "readIndex (w\<lparr>fs := (f)(ip \<mapsto> Json \<lparr>p_latestVersion = Some v, p_latestFilePath = Some path,
                                  p_rowHashes = Some h, p_files = Some xs\<rparr>),
                 defaultFiles := df\<rparr>) ip
     = \<lparr>latestVersion = v, latestFilePath = Some path, rowHashes = h, files = OwnFiles xs\<rparr>"
  by (simp add: readIndex_def)

text \<open>
  Claim C2. When the index names a latest artifact and the diff against the current rows is
  all zero, the writer returns \<^verbatim>\<open>changed = false\<close>, the zero diff and the last entry
  of the history (or \<^verbatim>\<open>null\<close> for an empty history), and the whole state stays as it
  was: no file is written, no version is taken, the index is untouched. Hence a second
  export of the same rows, directly after any first one, is unchanged and leaves the state
  the first export produced.
\<close>

theorem no_change_no_write:
  "(latestFilePath (readIndex w (path_join (baseDir opts) ''index.json'')) = Some p \<and> p \<noteq> []
      \<and> calcDiff (rowHashes (readIndex w (path_join (baseDir opts) ''index.json'')))
            (makeRowHashes (rows opts) (keyFn opts))
          = \<lparr>inserted = 0, updated = 0, deleted = 0\<rparr>
    \<longrightarrow> writeCsvWithDiff opts ts c w =
          (\<lparr>changed = False, diff = \<lparr>inserted = 0, updated = 0, deleted = 0\<rparr>,
            artifact =
              (let history = the_files w (files (readIndex w (path_join (baseDir opts) ''index.json'')))
               in if history = [] then None
                  else Some \<lparr>fileName = fileName (last history),
                             filePath = filePath (last history),
                             version = version (last history)\<rparr>)\<rparr>,
           w))
   \<and> (let w1 = snd (writeCsvWithDiff opts ts c w);
           again = writeCsvWithDiff opts ts' c' w1
       in \<not> changed (fst again) \<and> snd again = w1
          \<and> diff (fst again) = \<lparr>inserted = 0, updated = 0, deleted = 0\<rparr>)"
proof (intro conjI impI)
  let ?ip = "path_join (baseDir opts) ''index.json''"
  let ?h = "makeRowHashes (rows opts) (keyFn opts)"
  let ?z = "\<lparr>inserted = 0, updated = 0, deleted = 0\<rparr>"
  have unchanged: "writeCsvWithDiff opts t s u =
         (\<lparr>changed = False, diff = ?z,
           artifact = latest_artifact (the_files u (files (readIndex u ?ip)))\<rparr>, u)"
    if "calcDiff (rowHashes (readIndex u ?ip)) ?h = ?z"
      and "\<not> no_latest_file (latestFilePath (readIndex u ?ip))" for t s u
    using writeCsvWithDiff_unchanged [of u opts t s] that by simp
  {
    assume a: "latestFilePath (readIndex w ?ip) = Some p \<and> p \<noteq> []
      \<and> calcDiff (rowHashes (readIndex w ?ip)) ?h = ?z"
    then have "\<not> no_latest_file (latestFilePath (readIndex w ?ip))" by simp
    with a unchanged [of w ts c]
    show "writeCsvWithDiff opts ts c w =
          (\<lparr>changed = False, diff = ?z,
            artifact =
              (let history = the_files w (files (readIndex w ?ip))
               in if history = [] then None
                  else Some \<lparr>fileName = fileName (last history),
                             filePath = filePath (last history),
                             version = version (last history)\<rparr>)\<rparr>,
           w)"
      by (simp add: latest_artifact_def Let_def)
  }
  let ?d = "calcDiff (rowHashes (readIndex w ?ip)) ?h"
  show "let w1 = snd (writeCsvWithDiff opts ts c w);
           again = writeCsvWithDiff opts ts' c' w1
       in \<not> changed (fst again) \<and> snd again = w1 \<and> diff (fst again) = ?z"
  proof (cases "inserted ?d + updated ?d + deleted ?d > 0
                 \<or> no_latest_file (latestFilePath (readIndex w ?ip))")
    case True
    note ch = writeCsvWithDiff_changed [OF True, of ts c]
    let ?w1 = "snd (writeCsvWithDiff opts ts c w)"
    have idx: "rowHashes (readIndex ?w1 ?ip) = ?h"
      "latestFilePath (readIndex ?w1 ?ip)
         = Some (path_join (baseDir opts)
                  (artifactName (filePrefix opts) (latestVersion (readIndex w ?ip) + 1) ts))"
      unfolding ch by (simp_all add: readIndex_after_write)
    have "calcDiff (rowHashes (readIndex ?w1 ?ip)) ?h = ?z"
      unfolding idx by (rule calcDiff_same) (rule distinct_makeRowHashes)
    moreover have "\<not> no_latest_file (latestFilePath (readIndex ?w1 ?ip))"
      unfolding idx by (simp add: path_join_nonempty)
    ultimately show ?thesis
      using unchanged [of ?w1 ts' c'] by (simp add: Let_def)
  next
    case False
    then have z: "?d = ?z" and l: "\<not> no_latest_file (latestFilePath (readIndex w ?ip))"
      by (simp_all add: calcDiff_def Let_def)
    from unchanged [OF z l] show ?thesis
      by (simp add: Let_def)
  qed
qed

theorem no_change_no_write_witness:
  "let rs = [[(''employee_id'', Num 7)]];
       w = \<lparr>defaultFiles = [],
            fs = [''/d/index.json'' \<mapsto>
                    Json \<lparr>p_latestVersion = Some 1, p_latestFilePath = Some ''/d/a.csv'',
                          p_rowHashes = Some (makeRowHashes rs employeeKey),
                          p_files = Some [\<lparr>fileName = ''a.csv'', filePath = ''/d/a.csv'',
                                           version = 1, createdAt = ''t''\<rparr>]\<rparr>],
            jobs = [], items = [], nextJobId = 1, employees = [], cwd = ''/app''\<rparr>;
       opts = \<lparr>baseDir = ''/d'', filePrefix = ''employees'', headers = [''employee_id''],
               rows = rs, keyFn = employeeKey\<rparr>
   in latestFilePath (readIndex w (path_join (baseDir opts) ''index.json'')) = Some ''/d/a.csv''
      \<and> ''/d/a.csv'' \<noteq> []
      \<and> calcDiff (rowHashes (readIndex w (path_join (baseDir opts) ''index.json'')))
            (makeRowHashes (rows opts) (keyFn opts))
          = \<lparr>inserted = 0, updated = 0, deleted = 0\<rparr>
      \<and> writeCsvWithDiff opts 9 ''u'' w =
          (\<lparr>changed = False, diff = \<lparr>inserted = 0, updated = 0, deleted = 0\<rparr>,
            artifact = Some \<lparr>fileName = ''a.csv'', filePath = ''/d/a.csv'', version = 1\<rparr>\<rparr>, w)"
proof -
  let ?rs = "[[(''employee_id'', Num 7)]]"
  let ?w = "\<lparr>defaultFiles = [],
            fs = [''/d/index.json'' \<mapsto>
                    Json \<lparr>p_latestVersion = Some 1, p_latestFilePath = Some ''/d/a.csv'',
                          p_rowHashes = Some (makeRowHashes ?rs employeeKey),
                          p_files = Some [\<lparr>fileName = ''a.csv'', filePath = ''/d/a.csv'',
                                           version = 1, createdAt = ''t''\<rparr>]\<rparr>],
            jobs = [], items = [], nextJobId = 1, employees = [], cwd = ''/app''\<rparr>"
  let ?opts = "\<lparr>baseDir = ''/d'', filePrefix = ''employees'', headers = [''employee_id''],
               rows = ?rs, keyFn = employeeKey\<rparr>"
  have idx: "readIndex ?w (path_join (baseDir ?opts) ''index.json'')
      = \<lparr>latestVersion = 1, latestFilePath = Some ''/d/a.csv'',
         rowHashes = makeRowHashes ?rs employeeKey,
         files = OwnFiles [\<lparr>fileName = ''a.csv'', filePath = ''/d/a.csv'',
                            version = 1, createdAt = ''t''\<rparr>]\<rparr>"
    by (simp add: readIndex_def path_join_def)
  have z: "calcDiff (makeRowHashes ?rs employeeKey) (makeRowHashes ?rs employeeKey)
             = \<lparr>inserted = 0, updated = 0, deleted = 0\<rparr>"
    by (rule calcDiff_same) (rule distinct_makeRowHashes)
  have h: "latestFilePath (readIndex ?w (path_join (baseDir ?opts) ''index.json'')) = Some ''/d/a.csv''
      \<and> ''/d/a.csv'' \<noteq> []
      \<and> calcDiff (rowHashes (readIndex ?w (path_join (baseDir ?opts) ''index.json'')))
            (makeRowHashes (rows ?opts) (keyFn ?opts))
          = \<lparr>inserted = 0, updated = 0, deleted = 0\<rparr>"
    unfolding idx using z by simp
  have "writeCsvWithDiff ?opts 9 ''u'' ?w =
          (\<lparr>changed = False, diff = \<lparr>inserted = 0, updated = 0, deleted = 0\<rparr>,
            artifact = Some \<lparr>fileName = ''a.csv'', filePath = ''/d/a.csv'', version = 1\<rparr>\<rparr>, ?w)"
    using no_change_no_write [of ?w ?opts "''/d/a.csv''" 9 "''u''", THEN conjunct1, THEN mp, OF h]
    unfolding idx by (simp add: Let_def)
  with h show ?thesis
    unfolding Let_def by (intro conjI) (simp_all only: simp_thms)
qed

section \<open>Field order and the fingerprint\<close>







section \<open>The shared history array of \<^verbatim>\<open>DEFAULT_INDEX\<close>\<close>

lemma padStart0_1: "padStart0 4 ''1'' = ''0001''"
  by (simp add: padStart0_def numeral_3_eq_3)

lemma artifactName_employees_1:
  "artifactName ''employees'' (Suc 0) 1000 = ''employees_v0001_1000.csv''"
  by (simp add: artifactName_def String_num_def digits.simps padStart0_1)

lemma artifactName_submissions_1:
  "artifactName ''202603_submissions'' (Suc 0) 2000 = ''202603_submissions_v0001_2000.csv''"
  by (simp add: artifactName_def String_num_def digits.simps padStart0_1)

lemma first_employees_export:
  "exportEmployeesCsvDiff 1000 ''t1''
     \<lparr>defaultFiles = [], fs = Map.empty, jobs = [], items = [], nextJobId = 1,
      employees = [], cwd = ''/app''\<rparr>
   = (\<lparr>changed = True, diff = \<lparr>inserted = 0, updated = 0, deleted = 0\<rparr>,
       artifact = Some \<lparr>fileName = ''employees_v0001_1000.csv'',
                        filePath = ''/app/storage/csv/employees/employees_v0001_1000.csv'',
                        version = 1\<rparr>\<rparr>,
      \<lparr>defaultFiles = [\<lparr>fileName = ''employees_v0001_1000.csv'',
                        filePath = ''/app/storage/csv/employees/employees_v0001_1000.csv'',
                        version = 1, createdAt = ''t1''\<rparr>],
       fs = [''/app/storage/csv/employees/employees_v0001_1000.csv'' \<mapsto>
               Raw (''employee_id,employee_code,display_name,department,is_active'' @ [CHR 0x0A]),
             ''/app/storage/csv/employees/index.json'' \<mapsto>
               Json \<lparr>p_latestVersion = Some 1,
                     p_latestFilePath =
                       Some ''/app/storage/csv/employees/employees_v0001_1000.csv'',
                     p_rowHashes = Some [],
                     p_files = Some [\<lparr>fileName = ''employees_v0001_1000.csv'',
                        filePath = ''/app/storage/csv/employees/employees_v0001_1000.csv'',
                        version = 1, createdAt = ''t1''\<rparr>]\<rparr>],
       jobs = [], items = [], nextJobId = 1, employees = [], cwd = ''/app''\<rparr>)"
  by (simp add: exportEmployeesCsvDiff_def employeesOptions_def writeCsvWithDiff_def
      readIndex_def DEFAULT_INDEX_def datasetDir_def path_join_def makeRowHashes_def
      calcDiff_def Let_def rowsToCsv_def artifactName_employees_1)

text \<open>
  Claim C1 at a failing input. The process starts with no file on disk and exports the
  employee roster once (as every login does). Loading the index of the month 2026-03, which
  has no index file, then gives version 0, no latest path and no hashes, but a history that
  holds the entry of the roster's artifact: \<^verbatim>\<open>{ ...DEFAULT_INDEX }\<close> copies the reference
  to the one array \<^verbatim>\<open>DEFAULT_INDEX.files\<close>, and the roster's export pushed its entry
  to that array.
\<close>

theorem readIndex_absent_shares_history:
  "let w0 = \<lparr>defaultFiles = [], fs = Map.empty, jobs = [], items = [], nextJobId = 1,
             employees = [], cwd = ''/app''\<rparr>;
       w1 = snd (exportEmployeesCsvDiff 1000 ''t1'' w0);
       indexPath = path_join (datasetDir (cwd w1) ''2026-03'') ''index.json'';
       index = readIndex w1 indexPath
   in fs w1 indexPath = None
      \<and> latestVersion index = 0 \<and> latestFilePath index = None \<and> rowHashes index = []
      \<and> the_files w1 (files index)
          = [\<lparr>fileName = ''employees_v0001_1000.csv'',
              filePath = ''/app/storage/csv/employees/employees_v0001_1000.csv'',
              version = 1, createdAt = ''t1''\<rparr>]"
  unfolding Let_def first_employees_export
  by (simp add: readIndex_def DEFAULT_INDEX_def datasetDir_def path_join_def)

text \<open>
  Claim C5 at a failing input. In the same process the first export of the month 2026-03
  (an empty row set is enough) takes version 1 and writes an index whose history has two
  entries, the roster's and its own: the history is longer than the latest version.
\<close>

theorem history_longer_than_latestVersion:
  "let w0 = \<lparr>defaultFiles = [], fs = Map.empty, jobs = [], items = [], nextJobId = 1,
             employees = [], cwd = ''/app''\<rparr>;
       w1 = snd (exportEmployeesCsvDiff 1000 ''t1'' w0);
       w2 = snd (writeCsvWithDiff (submissionsOptions (cwd w1) ''2026-03'' []) 2000 ''t2'' w1);
       index = readIndex w2 (path_join (datasetDir (cwd w2) ''2026-03'') ''index.json'')
   in latestVersion index = 1
      \<and> the_files w2 (files index)
          = [\<lparr>fileName = ''employees_v0001_1000.csv'',
              filePath = ''/app/storage/csv/employees/employees_v0001_1000.csv'',
              version = 1, createdAt = ''t1''\<rparr>,
             \<lparr>fileName = ''202603_submissions_v0001_2000.csv'',
              filePath = ''/app/storage/csv/2026-03/202603_submissions_v0001_2000.csv'',
              version = 1, createdAt = ''t2''\<rparr>]
      \<and> length (the_files w2 (files index)) \<noteq> latestVersion index"
  unfolding Let_def first_employees_export
  by (simp add: submissionsOptions_def writeCsvWithDiff_def
      readIndex_def DEFAULT_INDEX_def datasetDir_def path_join_def makeRowHashes_def
      calcDiff_def Let_def rowsToCsv_def artifactName_submissions_1)

section \<open>The sync run\<close>

subsection \<open>Settling in any order\<close>




subsection \<open>The loop over the settled results\<close>

lemma processSubmission_failed:
  "details s = [] \<Longrightarrow> processSubmission s names = Inl (Error ''details is empty'')"
  by (simp add: processSubmission_def)

lemma processSubmission_ok:
  "details s \<noteq> [] \<Longrightarrow>
     processSubmission s names
       = Inr (buildSubmissionRows s (case names (employeeId s) of
                                      None \<Rightarrow> ''employee-'' @ String_num (employeeId s)
                                    | Some n \<Rightarrow> n))"
  by (simp add: processSubmission_def)



subsection \<open>The ledger\<close>

lemma addSyncJobItem_frame [simp]:
  "fs (addSyncJobItem it w) = fs w"
  "defaultFiles (addSyncJobItem it w) = defaultFiles w"
  "jobs (addSyncJobItem it w) = jobs w"
  "nextJobId (addSyncJobItem it w) = nextJobId w"
  "employees (addSyncJobItem it w) = employees w"
  "cwd (addSyncJobItem it w) = cwd w"
  by (simp_all add: addSyncJobItem_def)

lemma fold_addSyncJobItem_frame [simp]:
  "fs (fold (\<lambda>s. addSyncJobItem (f s)) subs w) = fs w"
  "defaultFiles (fold (\<lambda>s. addSyncJobItem (f s)) subs w) = defaultFiles w"
  "jobs (fold (\<lambda>s. addSyncJobItem (f s)) subs w) = jobs w"
  "nextJobId (fold (\<lambda>s. addSyncJobItem (f s)) subs w) = nextJobId w"
  "employees (fold (\<lambda>s. addSyncJobItem (f s)) subs w) = employees w"
  "cwd (fold (\<lambda>s. addSyncJobItem (f s)) subs w) = cwd w"
  by (induction subs arbitrary: w) simp_all



subsection \<open>What the writer reads and what it leaves alone\<close>



lemma writeCsvWithDiff_cases:
  fixes opts :: WriteOptions and w :: World and ts :: nat and c :: string
  defines "ip \<equiv> path_join (baseDir opts) ''index.json''"
  defines "idx \<equiv> readIndex w ip"
  defines "h \<equiv> makeRowHashes (rows opts) (keyFn opts)"
  defines "d \<equiv> calcDiff (rowHashes idx) h"
  defines "v \<equiv> latestVersion idx + 1"
  defines "path \<equiv> path_join (baseDir opts) (artifactName (filePrefix opts) v ts)"
  defines "entry \<equiv> \<lparr>fileName = artifactName (filePrefix opts) v ts, filePath = path,
                       version = v, createdAt = c\<rparr>"
  shows "writeCsvWithDiff opts ts c w =
     (if inserted d + updated d + deleted d > 0 \<or> no_latest_file (latestFilePath idx)
      then (\<lparr>changed = True, diff = d,
              artifact = Some \<lparr>fileName = artifactName (filePrefix opts) v ts,
                               filePath = path, version = v\<rparr>\<rparr>,
            w\<lparr>fs := (fs w)(path \<mapsto> Raw (rowsToCsv (headers opts) (rows opts)),
                            ip \<mapsto> Json \<lparr>p_latestVersion = Some v, p_latestFilePath = Some path,
                                        p_rowHashes = Some h,
                                        p_files = Some (the_files w (files idx) @ [entry])\<rparr>),
              defaultFiles := (if files idx = DefaultFiles then defaultFiles w @ [entry]
                               else defaultFiles w)\<rparr>)
      else (\<lparr>changed = False, diff = d,
              artifact = latest_artifact (the_files w (files idx))\<rparr>, w))"
proof (cases "inserted d + updated d + deleted d > 0 \<or> no_latest_file (latestFilePath idx)")
  case True
  then show ?thesis
    using writeCsvWithDiff_changed [of w opts ts c]
    unfolding entry_def path_def v_def d_def h_def idx_def ip_def by simp
next
  case False
  then show ?thesis
    using writeCsvWithDiff_unchanged [of w opts ts c]
    unfolding entry_def path_def v_def d_def h_def idx_def ip_def by simp
qed

lemma writeCsvWithDiff_frame [simp]:
  "jobs (snd (writeCsvWithDiff opts ts c w)) = jobs w"
  "items (snd (writeCsvWithDiff opts ts c w)) = items w"
  "nextJobId (snd (writeCsvWithDiff opts ts c w)) = nextJobId w"
  "employees (snd (writeCsvWithDiff opts ts c w)) = employees w"
  "cwd (snd (writeCsvWithDiff opts ts c w)) = cwd w"
  by (simp_all add: writeCsvWithDiff_cases)

lemma exportEmployeesCsvDiff_frame [simp]:
  "jobs (snd (exportEmployeesCsvDiff ts c w)) = jobs w"
  "items (snd (exportEmployeesCsvDiff ts c w)) = items w"
  "nextJobId (snd (exportEmployeesCsvDiff ts c w)) = nextJobId w"
  "employees (snd (exportEmployeesCsvDiff ts c w)) = employees w"
  "cwd (snd (exportEmployeesCsvDiff ts c w)) = cwd w"
  by (simp_all add: exportEmployeesCsvDiff_def)

lemma finishSyncJob_frame [simp]:
  "fs (finishSyncJob i st err now w) = fs w"
  "defaultFiles (finishSyncJob i st err now w) = defaultFiles w"
  "items (finishSyncJob i st err now w) = items w"
  "nextJobId (finishSyncJob i st err now w) = nextJobId w"
  "employees (finishSyncJob i st err now w) = employees w"
  "cwd (finishSyncJob i st err now w) = cwd w"
  by (simp_all add: finishSyncJob_def)


subsection \<open>A run that returns\<close>


subsection \<open>The empty input\<close>

text \<open>
  Claim C9. With an empty list of submissions \<^verbatim>\<open>runCsvSync\<close> throws
  \<^verbatim>\<open>no submissions for target month\<close> at once: the state is the one it was called in,
  so no job and no item has been stored and no job identifier has been taken.
\<close>

theorem empty_submissions_rejected:
  "submissions opts = [] \<longrightarrow>
     runCsvSync collate completion clk opts w = (Raised ''no submissions for target month'', w)
     \<and> jobs (snd (runCsvSync collate completion clk opts w)) = jobs w
     \<and> items (snd (runCsvSync collate completion clk opts w)) = items w
     \<and> nextJobId (snd (runCsvSync collate completion clk opts w)) = nextJobId w"
  by (simp add: runCsvSync_def)

theorem empty_submissions_rejected_witness:
  "let opts = \<lparr>o_yearMonth = ''2026-03'', o_triggerType = Manual, o_triggeredByUserId = 1,
               submissions = []\<rparr>;
       clk = \<lparr>submissionsNow = 1, submissionsCreated = ''a'', employeesNow = 2,
              employeesCreated = ''b'', databaseNow = ''c'', returnedAt = ''d''\<rparr>;
       w = \<lparr>defaultFiles = [], fs = Map.empty, jobs = [], items = [], nextJobId = 1,
            employees = [], cwd = ''/app''\<rparr>
   in submissions opts = []
      \<and> runCsvSync (\<lambda>k. k) [] clk opts w = (Raised ''no submissions for target month'', w)
      \<and> jobs (snd (runCsvSync (\<lambda>k. k) [] clk opts w)) = []"
proof -
  let ?opts = "\<lparr>o_yearMonth = ''2026-03'', o_triggerType = Manual, o_triggeredByUserId = 1,
               submissions = []\<rparr>"
  let ?clk = "\<lparr>submissionsNow = 1, submissionsCreated = ''a'', employeesNow = 2,
              employeesCreated = ''b'', databaseNow = ''c'', returnedAt = ''d''\<rparr>"
  let ?w = "\<lparr>defaultFiles = [], fs = Map.empty, jobs = [], items = [], nextJobId = 1,
            employees = [], cwd = ''/app''\<rparr>"
  have h: "submissions ?opts = []"
    by simp
  from empty_submissions_rejected [of ?opts "\<lambda>k. k" "[]" ?clk ?w, THEN mp, OF h] h
  show ?thesis
    unfolding Let_def by simp
qed

subsection \<open>One ledger item per record\<close>




subsection \<open>The directories of the two datasets\<close>


lemma path_join_inject [simp]: "path_join d n = path_join d n' \<longleftrightarrow> n = n'"
  by (simp add: path_join_def)




subsection \<open>The files of the month after a run\<close>


subsection \<open>The order of the rows in the artifact\<close>







subsection \<open>A run in which every projection fails\<close>






section \<open>The index across exports\<close>

text \<open>
  Apart from the shared history array, loading and writing the index behave as the
  zero-value index and the version counter are meant to.
\<close>

lemma unreadable_index_loads_default:
  assumes "fs w p = None \<or> fs w p = Some (Raw t)"
  shows "latestVersion (readIndex w p) = 0" and "latestFilePath (readIndex w p) = None"
    and "rowHashes (readIndex w p) = []"
    and "the_files w (files (readIndex w p)) = defaultFiles w"
  using assms by (auto simp: readIndex_def DEFAULT_INDEX_def)

lemma changed_iff:
  "changed (fst (writeCsvWithDiff opts ts c w)) \<longleftrightarrow>
     (let index = readIndex w (path_join (baseDir opts) ''index.json'');
          d = calcDiff (rowHashes index) (makeRowHashes (rows opts) (keyFn opts))
      in inserted d + updated d + deleted d > 0 \<or> no_latest_file (latestFilePath index))"
  by (simp add: writeCsvWithDiff_cases Let_def)

lemma first_export_forced:
  assumes "fs w (path_join (baseDir opts) ''index.json'') = None
           \<or> fs w (path_join (baseDir opts) ''index.json'') = Some (Raw t)"
  shows "changed (fst (writeCsvWithDiff opts ts c w))"
    and "map_option version (artifact (fst (writeCsvWithDiff opts ts c w))) = Some 1"
  using unreadable_index_loads_default(1,2) [OF assms]
  by (simp_all add: writeCsvWithDiff_cases)

lemma changed_export_index:
  fixes opts :: WriteOptions and w :: World and ts :: nat and c :: string
  defines "ip \<equiv> path_join (baseDir opts) ''index.json''"
  defines "v \<equiv> latestVersion (readIndex w ip) + 1"
  defines "path \<equiv> path_join (baseDir opts) (artifactName (filePrefix opts) v ts)"
  assumes "changed (fst (writeCsvWithDiff opts ts c w))"
  shows "readIndex (snd (writeCsvWithDiff opts ts c w)) ip =
           \<lparr>latestVersion = v, latestFilePath = Some path,
            rowHashes = makeRowHashes (rows opts) (keyFn opts),
            files = OwnFiles (the_files w (files (readIndex w ip))
                      @ [\<lparr>fileName = artifactName (filePrefix opts) v ts, filePath = path,
                          version = v, createdAt = c\<rparr>])\<rparr>"
proof -
  let ?d = "calcDiff (rowHashes (readIndex w (path_join (baseDir opts) ''index.json'')))
              (makeRowHashes (rows opts) (keyFn opts))"
  from assms(4) have "inserted ?d + updated ?d + deleted ?d > 0
      \<or> no_latest_file (latestFilePath (readIndex w (path_join (baseDir opts) ''index.json'')))"
    by (simp add: changed_iff Let_def)
  from writeCsvWithDiff_changed [OF this, of ts c] show ?thesis
    unfolding path_def v_def ip_def by (simp add: readIndex_after_write)
qed

lemma history_length_step:
  fixes opts :: WriteOptions and w :: World and ts :: nat and c :: string
  defines "ip \<equiv> path_join (baseDir opts) ''index.json''"
  defines "w' \<equiv> snd (writeCsvWithDiff opts ts c w)"
  assumes "length (the_files w (files (readIndex w ip))) = latestVersion (readIndex w ip)"
  shows "length (the_files w' (files (readIndex w' ip))) = latestVersion (readIndex w' ip)"
proof (cases "changed (fst (writeCsvWithDiff opts ts c w))")
  case True
  from changed_export_index [OF True] assms(3) show ?thesis
    unfolding w'_def ip_def by simp
next
  case False
  then have "w' = w"
    unfolding w'_def by (simp add: writeCsvWithDiff_cases split: if_splits)
  with assms(3) show ?thesis
    by simp
qed

end
